theory Spec2Isabelle
  imports Complex_Main "HOL-Library.Word"
begin

section \<open>The on-chain execution contract (contracts/ArbitrageBot.sol)\<close>

subsection \<open>Values, errors and checked arithmetic\<close>

type_synonym address = "160 word"
type_synonym uint256 = "256 word"

text \<open>
  A failed \<^verbatim>\<open>require\<close> is \<open>Revert\<close> with its message; the checked arithmetic of
  Solidity 0.8 fails with \<open>Panic 17\<close> (code 0x11), which is also what
  \<^verbatim>\<open>amounts.length - 1\<close> does on an empty array.
\<close>

datatype error = Revert string | Panic nat

definition bindE :: "error + 'a \<Rightarrow> ('a \<Rightarrow> error + 'b) \<Rightarrow> error + 'b" where
  "bindE m f = (case m of Inl e \<Rightarrow> Inl e | Inr x \<Rightarrow> f x)"

definition require :: "bool \<Rightarrow> string \<Rightarrow> error + unit" where
  "require c msg = (if c then Inr () else Inl (Revert msg))"

definition checked_add :: "uint256 \<Rightarrow> uint256 \<Rightarrow> error + uint256" where
  "checked_add a b = (if unat a + unat b < 2 ^ 256 then Inr (a + b) else Inl (Panic 17))"

definition checked_sub :: "uint256 \<Rightarrow> uint256 \<Rightarrow> error + uint256" where
  "checked_sub a b = (if b \<le> a then Inr (a - b) else Inl (Panic 17))"

definition checked_mul :: "uint256 \<Rightarrow> uint256 \<Rightarrow> error + uint256" where
  "checked_mul a b = (if unat a * unat b < 2 ^ 256 then Inr (a * b) else Inl (Panic 17))"

subsection \<open>Storage, events, environment\<close>

text \<open>
  The contract's own storage, with the state variables of the three OpenZeppelin bases it
  inherits: \<open>owner\<close> (Ownable), \<open>paused\<close> (Pausable) and \<open>entered\<close>
  (ReentrancyGuard: the status word equals \<^verbatim>\<open>_ENTERED\<close>).
\<close>

record storage =
  maxSlippage :: uint256
  maxGasPrice :: uint256
  minProfitThreshold :: uint256
  feePercentage :: uint256
  feeRecipient :: address
  authorizedBots :: "address \<Rightarrow> bool"
  tokenBlacklist :: "address \<Rightarrow> bool"
  owner :: address
  paused :: bool
  entered :: bool

datatype event =
    ArbitrageExecuted address address address address uint256 uint256 uint256
  | ProfitWithdrawn address address uint256
  | EmergencyWithdrawal address address uint256
  | ConfigUpdated string uint256 uint256

text \<open>
  What a call reads from the transaction and the block. \<^verbatim>\<open>gasleft()\<close> is read twice in
  \<^verbatim>\<open>executeArbitrage\<close>; the two readings are \<open>gas_start\<close> and \<open>gas_end\<close>.
\<close>

record call_env =
  this :: address
  msg_sender :: address
  tx_gasprice :: uint256
  block_timestamp :: uint256
  gas_start :: uint256
  gas_end :: uint256

text \<open>
  Token and router contracts are not part of the repository: the contract only calls them.
  They are parameters of the model, acting on the rest of the chain state \<open>'w\<close> (token
  ledgers, allowances, pools). Each may revert. The first address of every function is the
  contract called; \<open>safeApprove\<close> and \<open>safeTransfer\<close> then take the calling
  contract (owner of the funds), and \<open>swapExactTokensForTokens\<close> takes its caller.
  The contract's storage is written by its own code only, so the externals do not touch it.
\<close>

record 'w externals =
  balanceOf :: "address \<Rightarrow> address \<Rightarrow> 'w \<Rightarrow> error + uint256"
  safeApprove :: "address \<Rightarrow> address \<Rightarrow> address \<Rightarrow> uint256 \<Rightarrow> 'w \<Rightarrow> error + 'w"
  safeTransfer :: "address \<Rightarrow> address \<Rightarrow> address \<Rightarrow> uint256 \<Rightarrow> 'w \<Rightarrow> error + 'w"
  swapExactTokensForTokens ::
    "address \<Rightarrow> address \<Rightarrow> uint256 \<Rightarrow> uint256 \<Rightarrow> address list \<Rightarrow> address \<Rightarrow> uint256 \<Rightarrow> 'w
      \<Rightarrow> error + ('w \<times> uint256 list)"
  router_getAmountsOut :: "address \<Rightarrow> uint256 \<Rightarrow> address list \<Rightarrow> 'w \<Rightarrow> error + uint256 list"

record 'w chain =
  bot :: storage
  world :: 'w

subsection \<open>Modifiers and functions\<close>

definition validToken :: "storage \<Rightarrow> address \<Rightarrow> error + unit" where
  "validToken st token =
     bindE (require (token \<noteq> 0) ''ArbitrageBot: Invalid token address'') (\<lambda>_.
     require (\<not> tokenBlacklist st token) ''ArbitrageBot: Token blacklisted'')"

text \<open>
  \<^verbatim>\<open>executeArbitrage\<close> runs its modifiers in the order written (\<^verbatim>\<open>nonReentrant\<close>,
  \<^verbatim>\<open>whenNotPaused\<close>, \<^verbatim>\<open>onlyAuthorizedBot\<close>, \<^verbatim>\<open>validToken\<close> twice), then its
  body; \<^verbatim>\<open>nonReentrant\<close> sets the guard before the body and clears it after.
\<close>

text \<open>\<^verbatim>\<open>_swapOnDEX\<close>: approve the router, swap along the two-token path to this contract
  with a deadline of five minutes, return the last amount.\<close>

definition swapOnDEX ::
  "'w externals \<Rightarrow> call_env \<Rightarrow> address \<Rightarrow> address \<Rightarrow> address \<Rightarrow> uint256 \<Rightarrow> uint256 \<Rightarrow> 'w
    \<Rightarrow> error + ('w \<times> uint256)" where
  "swapOnDEX ext env dexRouter tokenIn tokenOut amountIn amountOutMin w =
     bindE (safeApprove ext tokenIn (this env) dexRouter amountIn w) (\<lambda>w1.
     let path = [tokenIn, tokenOut] in
     bindE (checked_add (block_timestamp env) 300) (\<lambda>deadline.
     bindE (swapExactTokensForTokens ext dexRouter (this env)
              amountIn amountOutMin path (this env) deadline w1) (\<lambda>(w2, amounts).
     if amounts = [] then Inl (Panic 17) else Inr (w2, last amounts))))"

definition executeArbitrage ::
  "'w externals \<Rightarrow> call_env \<Rightarrow> address \<Rightarrow> address \<Rightarrow> address \<Rightarrow> address \<Rightarrow> uint256 \<Rightarrow> uint256
    \<Rightarrow> 'w chain \<Rightarrow> error + ('w chain \<times> event list)" where
  "executeArbitrage ext env tokenA tokenB dexA dexB amountIn minProfitExpected s =
     bindE (require (\<not> entered (bot s)) ''ReentrancyGuard: reentrant call'') (\<lambda>_.
     let s1 = s\<lparr>bot := (bot s)\<lparr>entered := True\<rparr>\<rparr> in
     bindE (require (\<not> paused (bot s1)) ''Pausable: paused'') (\<lambda>_.
     bindE (require (authorizedBots (bot s1) (msg_sender env)) ''ArbitrageBot: Not authorized'') (\<lambda>_.
     bindE (validToken (bot s1) tokenA) (\<lambda>_.
     bindE (validToken (bot s1) tokenB) (\<lambda>_.
     bindE (require (tx_gasprice env \<le> maxGasPrice (bot s1)) ''ArbitrageBot: Gas price too high'') (\<lambda>_.
     bindE (require (minProfitThreshold (bot s1) \<le> minProfitExpected) ''ArbitrageBot: Profit too low'') (\<lambda>_.
     let gasStart = gas_start env in
     bindE (balanceOf ext tokenA (this env) (world s1)) (\<lambda>initialBalance.
     bindE (require (amountIn \<le> initialBalance) ''ArbitrageBot: Insufficient balance'') (\<lambda>_.
     bindE (swapOnDEX ext env dexA tokenA tokenB amountIn 0 (world s1)) (\<lambda>(w1, tokenBReceived).
     bindE (require (0 < tokenBReceived) ''ArbitrageBot: First swap failed'') (\<lambda>_.
     bindE (swapOnDEX ext env dexB tokenB tokenA tokenBReceived amountIn w1) (\<lambda>(w2, tokenAReceived).
     bindE (require (amountIn < tokenAReceived) ''ArbitrageBot: No arbitrage profit'') (\<lambda>_.
     bindE (checked_sub tokenAReceived amountIn) (\<lambda>profit.
     bindE (require (minProfitExpected \<le> profit) ''ArbitrageBot: Profit below expectation'') (\<lambda>_.
     bindE (checked_mul profit (feePercentage (bot s1))) (\<lambda>scaled.
     let fee = scaled div 10000 in
     bindE (if 0 < fee then safeTransfer ext tokenA (this env) (feeRecipient (bot s1)) fee w2
            else Inr w2) (\<lambda>w3.
     bindE (checked_sub gasStart (gas_end env)) (\<lambda>gasUsed.
     bindE (checked_sub profit fee) (\<lambda>net.
     Inr (s1\<lparr>bot := (bot s1)\<lparr>entered := False\<rparr>, world := w3\<rparr>,
          [ArbitrageExecuted tokenA tokenB dexA dexB amountIn net gasUsed]))))))))))))))))))))"

text \<open>\<^verbatim>\<open>getAmountsOut\<close> of the contract: the router's quote for the two-token path.\<close>

definition getAmountsOut ::
  "'w externals \<Rightarrow> address \<Rightarrow> address \<Rightarrow> address \<Rightarrow> uint256 \<Rightarrow> 'w \<Rightarrow> error + uint256" where
  "getAmountsOut ext dexRouter tokenIn tokenOut amountIn w =
     (let path = [tokenIn, tokenOut] in
      bindE (router_getAmountsOut ext dexRouter amountIn path w) (\<lambda>amounts.
      if amounts = [] then Inl (Panic 17) else Inr (last amounts)))"

text \<open>\<^verbatim>\<open>simulateArbitrage\<close> is a \<^verbatim>\<open>view\<close> function: it reads the state and returns a
  pair, or reverts when a quote does.\<close>

definition simulateArbitrage ::
  "'w externals \<Rightarrow> address \<Rightarrow> address \<Rightarrow> address \<Rightarrow> address \<Rightarrow> uint256 \<Rightarrow> 'w chain
    \<Rightarrow> error + (uint256 \<times> bool)" where
  "simulateArbitrage ext tokenA tokenB dexA dexB amountIn s =
     bindE (getAmountsOut ext dexA tokenA tokenB amountIn (world s)) (\<lambda>tokenBOut.
     if tokenBOut = 0 then Inr (0, False) else
     bindE (getAmountsOut ext dexB tokenB tokenA tokenBOut (world s)) (\<lambda>tokenAOut.
     if tokenAOut \<le> amountIn then Inr (0, False) else
     bindE (checked_sub tokenAOut amountIn) (\<lambda>profit.
     Inr (profit, minProfitThreshold (bot s) \<le> profit))))"

text \<open>A message call on the EVM: when the called function reverts, every state change it
  made is discarded and the caller sees the error; otherwise the new state and the events
  are kept.\<close>

definition evm_call ::
  "('s \<Rightarrow> error + ('s \<times> event list)) \<Rightarrow> 's \<Rightarrow> 's \<times> (error + event list)" where
  "evm_call f s = (case f s of Inl e \<Rightarrow> (s, Inl e) | Inr (s', evs) \<Rightarrow> (s', Inr evs))"

text \<open>\<^verbatim>\<open>pause\<close> and \<^verbatim>\<open>unpause\<close>, owner only.\<close>

definition pause :: "call_env \<Rightarrow> 'w chain \<Rightarrow> error + ('w chain \<times> event list)" where
  "pause env s =
     bindE (require (owner (bot s) = msg_sender env) ''Ownable: caller is not the owner'') (\<lambda>_.
     bindE (require (\<not> paused (bot s)) ''Pausable: paused'') (\<lambda>_.
     Inr (s\<lparr>bot := (bot s)\<lparr>paused := True\<rparr>\<rparr>, [])))"

definition unpause :: "call_env \<Rightarrow> 'w chain \<Rightarrow> error + ('w chain \<times> event list)" where
  "unpause env s =
     bindE (require (owner (bot s) = msg_sender env) ''Ownable: caller is not the owner'') (\<lambda>_.
     bindE (require (paused (bot s)) ''Pausable: not paused'') (\<lambda>_.
     Inr (s\<lparr>bot := (bot s)\<lparr>paused := False\<rparr>\<rparr>, [])))"

text \<open>
  The ways a \<^verbatim>\<open>require\<close> of \<^verbatim>\<open>executeArbitrage\<close> can fail, in the order of the
  code: authorisation, pause, token checks, gas price, profit floor, balance, an empty
  first leg, a second leg that does not exceed the input, a profit below the expectation.
  The outputs of the two legs are what \<^verbatim>\<open>_swapOnDEX\<close> returns on the state at hand.
\<close>

definition require_fails ::
  "'w externals \<Rightarrow> call_env \<Rightarrow> address \<Rightarrow> address \<Rightarrow> address \<Rightarrow> address \<Rightarrow> uint256 \<Rightarrow> uint256
    \<Rightarrow> 'w chain \<Rightarrow> bool" where
  "require_fails ext env tokenA tokenB dexA dexB amountIn minProfitExpected s =
     (\<not> authorizedBots (bot s) (msg_sender env)
      \<or> paused (bot s)
      \<or> tokenA = 0 \<or> tokenBlacklist (bot s) tokenA
      \<or> tokenB = 0 \<or> tokenBlacklist (bot s) tokenB
      \<or> maxGasPrice (bot s) < tx_gasprice env
      \<or> minProfitExpected < minProfitThreshold (bot s)
      \<or> (case balanceOf ext tokenA (this env) (world s) of
            Inl _ \<Rightarrow> False | Inr initialBalance \<Rightarrow> initialBalance < amountIn)
      \<or> (case swapOnDEX ext env dexA tokenA tokenB amountIn 0 (world s) of
            Inl _ \<Rightarrow> False
          | Inr (w1, tokenBReceived) \<Rightarrow>
              tokenBReceived = 0
              \<or> (case swapOnDEX ext env dexB tokenB tokenA tokenBReceived amountIn w1 of
                    Inl _ \<Rightarrow> False
                  | Inr (w2, tokenAReceived) \<Rightarrow>
                      tokenAReceived \<le> amountIn
                      \<or> tokenAReceived - amountIn < minProfitExpected)))"
section \<open>The off-chain entities\<close>

subsection \<open>JavaScript values\<close>

text \<open>
  A JavaScript number is NaN, an infinity or a finite value; the finite doubles are
  rationals. \<^verbatim>\<open>Math.max\<close> and the comparisons are exact on them. What rounds
  (\<^verbatim>\<open>parseFloat\<close>, the subtraction of doubles, \<^verbatim>\<open>toString\<close>) is a parameter of the
  functions that use it. A \<^verbatim>\<open>Date\<close> is its time value in milliseconds, and
  \<^verbatim>\<open>new Date()\<close> is the parameter \<open>now\<close>. A nullable column is an \<open>option\<close>.
\<close>

datatype number = NaN | NegInfinity | Finite rat | PosInfinity

fun number_less :: "number \<Rightarrow> number \<Rightarrow> bool" where
  "number_less NaN _ = False"
| "number_less _ NaN = False"
| "number_less NegInfinity NegInfinity = False"
| "number_less NegInfinity _ = True"
| "number_less _ NegInfinity = False"
| "number_less PosInfinity _ = False"
| "number_less _ PosInfinity = True"
| "number_less (Finite a) (Finite b) = (a < b)"

text \<open>\<^verbatim>\<open>Math.max(a, b)\<close>: NaN if either is NaN, else the larger.\<close>

definition Math_max :: "number \<Rightarrow> number \<Rightarrow> number" where
  "Math_max a b = (if a = NaN \<or> b = NaN then NaN else if number_less a b then b else a)"

text \<open>\<^verbatim>\<open>!x\<close> on a nullable string: true for null, undefined and the empty string.\<close>

definition falsy :: "string option \<Rightarrow> bool" where
  "falsy x = (case x of None \<Rightarrow> True | Some v \<Rightarrow> v = [])"

record js_float =
  parseFloat :: "string \<Rightarrow> number"
  float_sub :: "number \<Rightarrow> number \<Rightarrow> number"
  toString :: "number \<Rightarrow> string"

subsection \<open>Token (src/entities/Token.ts)\<close>

datatype TokenStandard = ERC20 | BEP20 | ERC721 | ERC1155

datatype TokenStatus = ACTIVE | INACTIVE | DEPRECATED | SUSPICIOUS

text \<open>The columns of the entity; the two JSON columns (\<^verbatim>\<open>socialLinks\<close>,
  \<^verbatim>\<open>metadata\<close>) are left out.\<close>

record Token =
  id :: string
  address :: string
  network :: string
  symbol :: string
  name :: string
  decimals :: number
  standard :: TokenStandard
  status :: TokenStatus
  isActive :: bool
  totalSupply :: "string option"
  circulatingSupply :: "string option"
  priceUSD :: "number option"
  marketCapUSD :: "number option"
  volume24hUSD :: "number option"
  logoUrl :: "string option"
  website :: "string option"
  description :: "string option"
  isStablecoin :: bool
  isWrappedNative :: bool
  priority :: number
  minTradeAmount :: "string option"
  maxTradeAmount :: "string option"
  lastPriceUpdate :: "nat option"
  lastVerified :: "nat option"
  createdAt :: nat
  updatedAt :: nat

definition Token_isAvailable :: "Token \<Rightarrow> bool" where
  "Token_isAvailable t = (Token.isActive t \<and> Token.status t = TokenStatus.ACTIVE)"

subsection \<open>DEX (src/entities/DEX.ts)\<close>

datatype DEXType =
  UNISWAP_V2 | UNISWAP_V3 | PANCAKESWAP | SUSHISWAP | QUICKSWAP | CURVE | BALANCER | DODO

datatype DEXStatus = ACTIVE | INACTIVE | MAINTENANCE

text \<open>The columns of the entity; the JSON column \<^verbatim>\<open>config\<close> and the two relations
  are left out.\<close>

record DEX =
  id :: string
  name :: string
  symbol :: string
  type :: DEXType
  network :: string
  routerAddress :: string
  factoryAddress :: string
  wethAddress :: "string option"
  status :: DEXStatus
  isActive :: bool
  feePercentage :: number
  priority :: number
  minLiquidity :: "string option"
  supportedTokens :: "string list option"
  description :: "string option"
  website :: "string option"
  documentation :: "string option"
  lastHealthCheck :: "nat option"
  isHealthy :: bool
  healthCheckError :: "string option"
  createdAt :: nat
  updatedAt :: nat

definition DEX_isAvailable :: "DEX \<Rightarrow> bool" where
  "DEX_isAvailable d =
     (DEX.isActive d \<and> DEX.status d = DEXStatus.ACTIVE \<and> DEX.isHealthy d)"

definition updateHealthStatus :: "nat \<Rightarrow> bool \<Rightarrow> string option \<Rightarrow> DEX \<Rightarrow> DEX" where
  "updateHealthStatus now healthy err d =
     d\<lparr>DEX.isHealthy := healthy,
       DEX.lastHealthCheck := Some now,
       DEX.healthCheckError := (if falsy err then None else err)\<rparr>"

definition setActive :: "bool \<Rightarrow> DEX \<Rightarrow> DEX" where
  "setActive active d =
     (let d1 = d\<lparr>DEX.isActive := active\<rparr>
      in if \<not> active then d1\<lparr>DEX.status := DEXStatus.INACTIVE\<rparr> else d1)"

subsection \<open>ArbitrageOpportunity (src/entities/ArbitrageOpportunity.ts)\<close>

datatype OpportunityStatus = DETECTED | ANALYZING | EXECUTING | COMPLETED | FAILED | EXPIRED

text \<open>The columns of the entity; the JSON column \<^verbatim>\<open>metadata\<close> and the relations
  are left out.\<close>

record ArbitrageOpportunity =
  id :: string
  network :: string
  tokenPair :: string
  tokenA :: string
  tokenB :: string
  dexAAddress :: string
  dexBAddress :: string
  priceA :: string
  priceB :: string
  profitPercentage :: number
  estimatedProfit :: string
  requiredAmount :: string
  estimatedGasFee :: string
  actualProfit :: "string option"
  actualGasFee :: "string option"
  status :: OpportunityStatus
  errorMessage :: "string option"
  detectedAt :: "nat option"
  executedAt :: "nat option"
  completedAt :: "nat option"
  expiresAt :: "nat option"
  createdAt :: nat
  updatedAt :: nat

definition getNetProfit :: "js_float \<Rightarrow> ArbitrageOpportunity \<Rightarrow> string" where
  "getNetProfit js opp =
     (if falsy (actualProfit opp) \<or> falsy (actualGasFee opp) then ''0''
      else
        let profit = parseFloat js (the (actualProfit opp));
            gasFee = parseFloat js (the (actualGasFee opp))
        in toString js (Math_max (Finite 0) (float_sub js profit gasFee)))"

definition markAsExecuting :: "nat \<Rightarrow> ArbitrageOpportunity \<Rightarrow> ArbitrageOpportunity" where
  "markAsExecuting now opp =
     opp\<lparr>ArbitrageOpportunity.status := EXECUTING, executedAt := Some now\<rparr>"

definition markAsCompleted ::
  "nat \<Rightarrow> string \<Rightarrow> string \<Rightarrow> ArbitrageOpportunity \<Rightarrow> ArbitrageOpportunity" where
  "markAsCompleted now profit gasFee opp =
     opp\<lparr>ArbitrageOpportunity.status := COMPLETED,
         actualProfit := Some profit,
         actualGasFee := Some gasFee,
         completedAt := Some now\<rparr>"

definition markAsFailed :: "string \<Rightarrow> ArbitrageOpportunity \<Rightarrow> ArbitrageOpportunity" where
  "markAsFailed msg opp =
     opp\<lparr>ArbitrageOpportunity.status := FAILED, errorMessage := Some msg\<rparr>"

definition markAsExpired :: "ArbitrageOpportunity \<Rightarrow> ArbitrageOpportunity" where
  "markAsExpired opp = opp\<lparr>ArbitrageOpportunity.status := EXPIRED\<rparr>"

text \<open>The legal edges of the opportunity lifecycle, as the specification lists them.\<close>

definition spec_legal_edge :: "OpportunityStatus \<Rightarrow> OpportunityStatus \<Rightarrow> bool" where
  "spec_legal_edge a b =
     ((a, b) \<in> set [(DETECTED, ANALYZING), (ANALYZING, EXECUTING), (ANALYZING, EXPIRED),
                    (DETECTED, EXPIRED), (EXECUTING, COMPLETED), (EXECUTING, FAILED)])"

section \<open>Concrete inputs\<close>

text \<open>
  A small chain to evaluate the contract on: a ledger of balances per token and holder,
  tokens that move balances, and routers that quote a fixed rate (router 1 pays two for
  one, every other router one for one) and honour the minimum output. The contract is at
  address 9, holds 1000 of token 10, its authorised executor and owner is 5, the fee
  recipient is 7, and token 13 is blacklisted.
\<close>

type_synonym ledger = "address \<Rightarrow> address \<Rightarrow> uint256"

definition ledger_move :: "address \<Rightarrow> address \<Rightarrow> address \<Rightarrow> uint256 \<Rightarrow> ledger \<Rightarrow> ledger" where
  "ledger_move token src dst v w =
     (let w1 = w(token := (w token)(src := w token src - v))
      in w1(token := (w1 token)(dst := w1 token dst + v)))"

definition sample_quote :: "address \<Rightarrow> uint256 \<Rightarrow> uint256" where
  "sample_quote router amountIn = (if router = 1 then 2 * amountIn else amountIn)"

definition sample_externals :: "ledger externals" where
  "sample_externals =
     \<lparr>balanceOf = (\<lambda>token holder w. Inr (w token holder)),
      safeApprove = (\<lambda>token holder spender v w. Inr w),
      safeTransfer = (\<lambda>token src dst v w.
         if v \<le> w token src then Inr (ledger_move token src dst v w)
         else Inl (Revert ''ERC20: transfer amount exceeds balance'')),
      swapExactTokensForTokens = (\<lambda>router caller amountIn amountOutMin path dst deadline w.
         case path of
           [tokenIn, tokenOut] \<Rightarrow>
             if w tokenIn caller < amountIn then Inl (Revert ''TransferHelper: TRANSFER_FROM_FAILED'')
             else if sample_quote router amountIn < amountOutMin
               then Inl (Revert ''UniswapV2Router: INSUFFICIENT_OUTPUT_AMOUNT'')
             else Inr (ledger_move tokenOut router dst (sample_quote router amountIn)
                         (ledger_move tokenIn caller router amountIn w),
                       [amountIn, sample_quote router amountIn])
         | _ \<Rightarrow> Inl (Revert ''UniswapV2Library: INVALID_PATH'')),
      router_getAmountsOut = (\<lambda>router amountIn path w. Inr [amountIn, sample_quote router amountIn])\<rparr>"

definition sample_env :: call_env where
  "sample_env = \<lparr>this = 9, msg_sender = 5, tx_gasprice = 20, block_timestamp = 1700000000,
                 gas_start = 300000, gas_end = 100000\<rparr>"

definition sample_storage :: storage where
  "sample_storage = \<lparr>maxSlippage = 500, maxGasPrice = 100, minProfitThreshold = 100,
     feePercentage = 100, feeRecipient = 7, authorizedBots = (\<lambda>a. a = 5),
     tokenBlacklist = (\<lambda>a. a = 13), owner = 5, paused = False, entered = False\<rparr>"

definition sample_ledger :: ledger where
  "sample_ledger = (\<lambda>token holder.
     if token = 10 \<and> holder = 9 then 1000 else if token = 11 \<and> holder = 1 then 5000
     else if token = 10 \<and> holder = 2 then 5000 else 0)"

definition sample_chain :: "ledger chain" where
  "sample_chain = \<lparr>bot = sample_storage, world = sample_ledger\<rparr>"


definition sample_paused :: "ledger chain" where
  "sample_paused = sample_chain\<lparr>bot := sample_storage\<lparr>paused := True\<rparr>\<rparr>"

definition sample_final :: "ledger chain" where
  "sample_final = sample_chain\<lparr>world :=
     ledger_move 10 9 7 10 (ledger_move 10 2 9 2000 (ledger_move 11 9 2 2000
       (ledger_move 11 1 9 2000 (ledger_move 10 9 1 1000 sample_ledger))))\<rparr>"

text \<open>Entities to evaluate the off-chain methods on, and a \<open>js_float\<close> that knows
  the strings \<^verbatim>\<open>5\<close> and \<^verbatim>\<open>7\<close> and subtracts finite values exactly.\<close>

definition sample_js :: js_float where
  "sample_js =
     \<lparr>parseFloat = (\<lambda>s. if s = ''5'' then Finite 5 else if s = ''7'' then Finite 7 else NaN),
      float_sub = (\<lambda>a b. case (a, b) of (Finite x, Finite y) \<Rightarrow> Finite (x - y) | _ \<Rightarrow> NaN),
      toString = (\<lambda>n. if n = Finite 0 then ''0'' else if n = Finite 2 then ''2'' else ''NaN'')\<rparr>"

definition sample_opportunity :: ArbitrageOpportunity where
  "sample_opportunity =
     \<lparr>ArbitrageOpportunity.id = ''7d0c'', network = ''eth'', tokenPair = ''WETH/USDC'',
      tokenA = ''0xC02aaA39b223FE8D0A0e5C4F27eAD9083C756Cc2'',
      tokenB = ''0xA0b86991c6218b36c1d19D4a2e9Eb0cE3606eB48'',
      dexAAddress = ''0x7a250d5630B4cF539739dF2C5dAcb4c659F2488D'',
      dexBAddress = ''0xd9e1cE17f2641f24aE83637ab66a2cca9C378B9F'',
      priceA = ''100'', priceB = ''105'', profitPercentage = Finite 2,
      estimatedProfit = ''20'', requiredAmount = ''1000'', estimatedGasFee = ''3'',
      actualProfit = None, actualGasFee = None, status = DETECTED, errorMessage = None,
      detectedAt = Some 1000, executedAt = None, completedAt = None, expiresAt = Some 31000,
      createdAt = 1000, updatedAt = 1000\<rparr>"

definition sample_dex :: DEX where
  "sample_dex =
     \<lparr>DEX.id = ''d1'', name = ''Uniswap V2'', symbol = ''UNI'', type = UNISWAP_V2,
      network = ''eth'',
      routerAddress = ''0x7a250d5630B4cF539739dF2C5dAcb4c659F2488D'',
      factoryAddress = ''0x5C69bEe701ef814a2B6a3EDD4B1652CB9cc5aA6f'',
      wethAddress = Some ''0xC02aaA39b223FE8D0A0e5C4F27eAD9083C756Cc2'',
      status = DEXStatus.MAINTENANCE, isActive = True, feePercentage = Finite (3 / 1000),
      priority = Finite 1, minLiquidity = None, supportedTokens = None, description = None,
      website = None, documentation = None, lastHealthCheck = None, isHealthy = True,
      healthCheckError = None, createdAt = 1000, updatedAt = 1000\<rparr>"

definition sample_token :: Token where
  "sample_token =
     \<lparr>Token.id = ''t1'', address = ''0xA0b86991c6218b36c1d19D4a2e9Eb0cE3606eB48'',
      network = ''eth'', symbol = ''USDC'', name = ''USD Coin'', decimals = Finite 6,
      standard = ERC20, status = SUSPICIOUS, isActive = True, totalSupply = None,
      circulatingSupply = None, priceUSD = None, marketCapUSD = None, volume24hUSD = None,
      logoUrl = None, website = None, description = None, isStablecoin = True,
      isWrappedNative = False, priority = Finite 1, minTradeAmount = None,
      maxTradeAmount = None, lastPriceUpdate = None, lastVerified = None,
      createdAt = 1000, updatedAt = 1000\<rparr>"

section \<open>Auxiliary facts\<close>

lemma bindE_Inr_iff: "bindE m f = Inr y \<longleftrightarrow> (\<exists>x. m = Inr x \<and> f x = Inr y)"
  by (cases m) (simp_all add: bindE_def)

lemma bindE_Inl: "m = Inl e \<Longrightarrow> bindE m f = Inl e"
  by (simp add: bindE_def)

lemma require_Inr_iff: "require c msg = Inr u \<longleftrightarrow> c"
  by (simp add: require_def)

lemma validToken_Inr_iff:
  "validToken st t = Inr u \<longleftrightarrow> t \<noteq> 0 \<and> \<not> tokenBlacklist st t"
  by (auto simp: validToken_def bindE_Inr_iff require_Inr_iff)

lemma checked_sub_Inr_iff: "checked_sub a b = Inr c \<longleftrightarrow> b \<le> a \<and> c = a - b"
  by (auto simp: checked_sub_def)

lemma checked_mul_Inr_iff:
  "checked_mul a b = Inr c \<longleftrightarrow> unat a * unat b < 2 ^ 256 \<and> c = a * b"
  by (auto simp: checked_mul_def)

lemma guard_roundtrip:
  "\<not> entered (bot s) \<Longrightarrow>
   s\<lparr>bot := (bot s)\<lparr>entered := True\<rparr>\<rparr>\<lparr>bot := (bot (s\<lparr>bot := (bot s)\<lparr>entered := True\<rparr>\<rparr>))\<lparr>entered := False\<rparr>, world := w\<rparr>
     = s\<lparr>world := w\<rparr>"
  by (cases s, cases "bot s") simp

lemma executeArbitrage_Inr:
  fixes tokenA tokenB :: address
  assumes ok: "executeArbitrage ext env tokenA tokenB dexA dexB amountIn minP s = Inr (s', evs)"
  shows "\<exists>bal w1 b w2 a w3.
      \<not> entered (bot s) \<and> \<not> paused (bot s) \<and> authorizedBots (bot s) (msg_sender env)
    \<and> tokenA \<noteq> 0 \<and> \<not> tokenBlacklist (bot s) tokenA
    \<and> tokenB \<noteq> 0 \<and> \<not> tokenBlacklist (bot s) tokenB
    \<and> tx_gasprice env \<le> maxGasPrice (bot s) \<and> minProfitThreshold (bot s) \<le> minP
    \<and> balanceOf ext tokenA (this env) (world s) = Inr bal \<and> amountIn \<le> bal
    \<and> swapOnDEX ext env dexA tokenA tokenB amountIn 0 (world s) = Inr (w1, b) \<and> 0 < b
    \<and> swapOnDEX ext env dexB tokenB tokenA b amountIn w1 = Inr (w2, a) \<and> amountIn < a
    \<and> minP \<le> a - amountIn
    \<and> unat (a - amountIn) * unat (storage.feePercentage (bot s)) < 2 ^ 256
    \<and> (if 0 < (a - amountIn) * storage.feePercentage (bot s) div 10000
        then safeTransfer ext tokenA (this env) (feeRecipient (bot s))
               ((a - amountIn) * storage.feePercentage (bot s) div 10000) w2 = Inr w3
        else w3 = w2)
    \<and> gas_end env \<le> gas_start env
    \<and> (a - amountIn) * storage.feePercentage (bot s) div 10000 \<le> a - amountIn
    \<and> s' = s\<lparr>world := w3\<rparr>
    \<and> evs = [ArbitrageExecuted tokenA tokenB dexA dexB amountIn
               (a - amountIn - (a - amountIn) * storage.feePercentage (bot s) div 10000)
               (gas_start env - gas_end env)]"
  using ok
  apply (simp add: executeArbitrage_def Let_def bindE_Inr_iff require_Inr_iff
      validToken_Inr_iff checked_sub_Inr_iff checked_mul_Inr_iff split_paired_Ex)
  apply (elim exE conjE)
  apply (simp add: guard_roundtrip)
  apply (auto split: if_splits)
  done

lemma bindE_simps: "bindE (Inl e) f = Inl e" "bindE (Inr x) f = f x"
  by (simp_all add: bindE_def)

lemma bindE_require: "bindE (require c msg) f = (if c then f () else Inl (Revert msg))"
  by (simp add: bindE_def require_def)

lemma bindE_validToken:
  "bindE (validToken st t) f =
     (if t = 0 then Inl (Revert ''ArbitrageBot: Invalid token address'')
      else if tokenBlacklist st t then Inl (Revert ''ArbitrageBot: Token blacklisted'')
      else f ())"
  by (simp add: validToken_def bindE_def require_def)

lemma executeArbitrage_not_Inr:
  fixes tokenA tokenB :: address
  assumes "require_fails ext env tokenA tokenB dexA dexB amountIn minP s"
  shows "executeArbitrage ext env tokenA tokenB dexA dexB amountIn minP s \<noteq> Inr r"
proof
  assume ok: "executeArbitrage ext env tokenA tokenB dexA dexB amountIn minP s = Inr r"
  obtain s' evs where r: "r = (s', evs)" by (cases r)
  from executeArbitrage_Inr [OF ok [unfolded r]] assms show False
    by (auto simp: require_fails_def not_less not_le)
qed

lemma swapOnDEX_Inr_iff:
  "swapOnDEX ext env r tin tout amt m w = Inr (w2, out) \<longleftrightarrow>
     (\<exists>w1 dl amounts.
        safeApprove ext tin (this env) r amt w = Inr w1
      \<and> checked_add (block_timestamp env) 300 = Inr dl
      \<and> swapExactTokensForTokens ext r (this env) amt m [tin, tout] (this env) dl w1
          = Inr (w2, amounts)
      \<and> amounts \<noteq> [] \<and> out = last amounts)"
  by (auto simp: swapOnDEX_def Let_def bindE_Inr_iff split: if_splits)

lemma unat_checked_sub: "(b::uint256) \<le> a \<Longrightarrow> unat (a - b) = unat a - unat b"
  by (simp add: unat_sub)

lemma unat_checked_mul:
  "unat (a::uint256) * unat b < 2 ^ 256 \<Longrightarrow> unat (a * b) = unat a * unat b"
  using unat_mult_lem [of a b] by simp

lemma unat_fee:
  "unat (p::uint256) * unat f < 2 ^ 256 \<Longrightarrow> unat (p * f div 10000) = unat p * unat f div 10000"
  by (simp add: unat_div unat_checked_mul)

lemma getAmountsOut_Inr_iff:
  "getAmountsOut ext r tin tout amt w = Inr out \<longleftrightarrow>
     (\<exists>amounts. router_getAmountsOut ext r amt [tin, tout] w = Inr amounts
        \<and> amounts \<noteq> [] \<and> out = last amounts)"
  by (auto simp: getAmountsOut_def Let_def bindE_Inr_iff split: if_splits)

lemmas sample_defs =
  sample_externals_def sample_env_def sample_chain_def sample_storage_def sample_quote_def

lemmas run_defs =
  executeArbitrage_def swapOnDEX_def bindE_def require_def validToken_def
  checked_add_def checked_sub_def checked_mul_def Let_def

lemma sample_run:
  "executeArbitrage sample_externals sample_env 10 11 1 2 1000 500 sample_chain
     = Inr (sample_final, [ArbitrageExecuted 10 11 1 2 1000 990 200000])"
  apply (simp add: run_defs sample_defs sample_final_def)
  apply (simp add: sample_ledger_def ledger_move_def)
  done

lemma sample_final_balances:
  "world sample_final 10 9 = 1990" "world sample_final 10 7 = 10" "world sample_final 11 9 = 0"
  by (simp_all add: sample_final_def sample_ledger_def ledger_move_def)

lemma sample_legs:
  "swapOnDEX sample_externals sample_env 1 10 11 1000 0 (world sample_chain)
     = Inr (ledger_move 11 1 9 2000 (ledger_move 10 9 1 1000 sample_ledger), 2000)"
  "swapOnDEX sample_externals sample_env 2 11 10 2000 1000
       (ledger_move 11 1 9 2000 (ledger_move 10 9 1 1000 sample_ledger))
     = Inr (ledger_move 10 2 9 2000 (ledger_move 11 9 2 2000
             (ledger_move 11 1 9 2000 (ledger_move 10 9 1 1000 sample_ledger))), 2000)"
  by (simp_all add: run_defs sample_defs sample_ledger_def ledger_move_def)

section \<open>Properties of the contract\<close>

text \<open>
  C2. Whenever one of the checks of \<^verbatim>\<open>executeArbitrage\<close> fails (authorisation, pause,
  blacklisted or zero token, gas price, profit floor, balance, first swap returning zero,
  second leg not exceeding \<open>amountIn\<close>, profit below \<open>minProfitExpected\<close>), the call
  reverts as a whole: the state after the call, contract storage and token balances
  alike, is the state before it, also when the failing check comes after a swap.
\<close>

theorem executeArbitrage_failed_require_reverts:
  fixes tokenA tokenB :: address
  assumes "require_fails ext env tokenA tokenB dexA dexB amountIn minP s"
  shows "\<exists>e. evm_call (executeArbitrage ext env tokenA tokenB dexA dexB amountIn minP) s = (s, Inl e)"
proof (cases "executeArbitrage ext env tokenA tokenB dexA dexB amountIn minP s")
  case (Inl e)
  then show ?thesis by (simp add: evm_call_def)
next
  case (Inr r)
  with executeArbitrage_not_Inr [OF assms, of r] show ?thesis by simp
qed

theorem executeArbitrage_failed_require_reverts_witness:
  "require_fails sample_externals sample_env 10 11 1 2 1000 500 sample_paused
   \<and> (\<exists>e. evm_call (executeArbitrage sample_externals sample_env 10 11 1 2 1000 500) sample_paused
            = (sample_paused, Inl e))
   \<and> require_fails sample_externals sample_env 10 11 1 2 1000 5000 sample_chain
   \<and> (\<exists>e. evm_call (executeArbitrage sample_externals sample_env 10 11 1 2 1000 5000) sample_chain
            = (sample_chain, Inl e))"
proof -
  have h1: "require_fails sample_externals sample_env 10 11 1 2 1000 500 sample_paused"
    by (simp add: require_fails_def sample_paused_def sample_chain_def)
  have h2: "require_fails sample_externals sample_env 10 11 1 2 1000 5000 sample_chain"
    by (simp add: require_fails_def sample_legs)
  from executeArbitrage_failed_require_reverts [OF h1] executeArbitrage_failed_require_reverts [OF h2] h1 h2 show ?thesis by simp
qed

text \<open>
  C3. \<^verbatim>\<open>executeArbitrage\<close> reverts unless the caller is an authorised executor, the
  contract is not paused, neither token is the zero address or blacklisted, the gas price
  is at most \<open>maxGasPrice\<close>, \<open>minProfitExpected\<close> is at least \<open>minProfitThreshold\<close>
  and the contract holds at least \<open>amountIn\<close> of tokenA. It does so before any swap:
  the outcome is the same whatever the routers and the tokens' approve and transfer
  would do.
\<close>

theorem executeArbitrage_rejects_before_any_swap:
  fixes tokenA tokenB :: address
  assumes "\<not> (authorizedBots (bot s) (msg_sender env)
            \<and> \<not> paused (bot s)
            \<and> tokenA \<noteq> 0 \<and> \<not> tokenBlacklist (bot s) tokenA
            \<and> tokenB \<noteq> 0 \<and> \<not> tokenBlacklist (bot s) tokenB
            \<and> tx_gasprice env \<le> maxGasPrice (bot s)
            \<and> minProfitThreshold (bot s) \<le> minP
            \<and> (\<exists>bal. balanceOf ext tokenA (this env) (world s) = Inr bal \<and> amountIn \<le> bal))"
  shows "isl (executeArbitrage ext env tokenA tokenB dexA dexB amountIn minP s)
       \<and> executeArbitrage
           (ext\<lparr>safeApprove := approve', safeTransfer := transfer',
                swapExactTokensForTokens := swap'\<rparr>)
           env tokenA tokenB dexA dexB amountIn minP s
         = executeArbitrage ext env tokenA tokenB dexA dexB amountIn minP s"
  using assms
  by (cases "balanceOf ext tokenA (this env) (world s)")
     (auto simp: executeArbitrage_def bindE_require bindE_validToken Let_def bindE_simps)


theorem executeArbitrage_rejects_before_any_swap_witness:
  "\<not> authorizedBots (bot sample_chain) (msg_sender (sample_env\<lparr>msg_sender := 6\<rparr>))
   \<and> isl (executeArbitrage sample_externals (sample_env\<lparr>msg_sender := 6\<rparr>) 10 11 1 2 1000 500
            sample_chain)"
proof -
  have h: "\<not> authorizedBots (bot sample_chain) (msg_sender (sample_env\<lparr>msg_sender := 6\<rparr>))"
    by (simp add: sample_chain_def sample_storage_def)
  from executeArbitrage_rejects_before_any_swap [of sample_chain "sample_env\<lparr>msg_sender := 6\<rparr>" 10 11 500 sample_externals 1000 1 2] h
  show ?thesis by simp
qed

text \<open>
  C4. In a successful \<^verbatim>\<open>executeArbitrage\<close> the profit is the second leg's output minus
  \<open>amountIn\<close> as natural numbers (the checked subtraction does not wrap), and it is at
  least \<open>minProfitExpected\<close>; the event reports it less the fee. A round trip that
  returns less than \<open>amountIn + minProfitExpected\<close> makes the call revert.
\<close>

theorem executeArbitrage_profit_exact:
  fixes tokenA tokenB :: address
  shows "(executeArbitrage ext env tokenA tokenB dexA dexB amountIn minP s = Inr (s', evs) \<longrightarrow>
      (\<exists>w1 b w2 a profit.
          swapOnDEX ext env dexA tokenA tokenB amountIn 0 (world s) = Inr (w1, b)
        \<and> swapOnDEX ext env dexB tokenB tokenA b amountIn w1 = Inr (w2, a)
        \<and> checked_sub a amountIn = Inr profit
        \<and> unat amountIn < unat a
        \<and> unat profit = unat a - unat amountIn
        \<and> unat minP \<le> unat profit
        \<and> evs = [ArbitrageExecuted tokenA tokenB dexA dexB amountIn
                   (profit - profit * storage.feePercentage (bot s) div 10000)
                   (gas_start env - gas_end env)]))
   \<and> (swapOnDEX ext env dexA tokenA tokenB amountIn 0 (world s) = Inr (v1, c)
      \<and> swapOnDEX ext env dexB tokenB tokenA c amountIn v1 = Inr (v2, d)
      \<and> unat d < unat amountIn + unat minP \<longrightarrow>
        isl (executeArbitrage ext env tokenA tokenB dexA dexB amountIn minP s))"
proof (intro conjI impI)
  assume ok: "executeArbitrage ext env tokenA tokenB dexA dexB amountIn minP s = Inr (s', evs)"
  from executeArbitrage_Inr [OF ok] obtain w1 b w2 a where
    l1: "swapOnDEX ext env dexA tokenA tokenB amountIn 0 (world s) = Inr (w1, b)" and
    l2: "swapOnDEX ext env dexB tokenB tokenA b amountIn w1 = Inr (w2, a)" and
    gt: "amountIn < a" and mp: "minP \<le> a - amountIn" and
    ev: "evs = [ArbitrageExecuted tokenA tokenB dexA dexB amountIn
               (a - amountIn - (a - amountIn) * storage.feePercentage (bot s) div 10000)
               (gas_start env - gas_end env)]"
    by blast
  from gt have le: "amountIn \<le> a" by simp
  have "checked_sub a amountIn = Inr (a - amountIn)" using le by (simp add: checked_sub_def)
  moreover have "unat amountIn < unat a" using gt by (simp add: word_less_nat_alt)
  moreover have "unat (a - amountIn) = unat a - unat amountIn" using le by (rule unat_checked_sub)
  moreover have "unat minP \<le> unat (a - amountIn)" using mp by (simp add: word_le_nat_alt)
  ultimately show "\<exists>w1 b w2 a profit.
          swapOnDEX ext env dexA tokenA tokenB amountIn 0 (world s) = Inr (w1, b)
        \<and> swapOnDEX ext env dexB tokenB tokenA b amountIn w1 = Inr (w2, a)
        \<and> checked_sub a amountIn = Inr profit
        \<and> unat amountIn < unat a
        \<and> unat profit = unat a - unat amountIn
        \<and> unat minP \<le> unat profit
        \<and> evs = [ArbitrageExecuted tokenA tokenB dexA dexB amountIn
                   (profit - profit * storage.feePercentage (bot s) div 10000)
                   (gas_start env - gas_end env)]"
    using l1 l2 ev by blast
next
  assume h: "swapOnDEX ext env dexA tokenA tokenB amountIn 0 (world s) = Inr (v1, c)
      \<and> swapOnDEX ext env dexB tokenB tokenA c amountIn v1 = Inr (v2, d)
      \<and> unat d < unat amountIn + unat minP"
  show "isl (executeArbitrage ext env tokenA tokenB dexA dexB amountIn minP s)"
  proof (cases "executeArbitrage ext env tokenA tokenB dexA dexB amountIn minP s")
    case (Inl e)
    then show ?thesis by simp
  next
    case (Inr r)
    obtain s' evs where r: "r = (s', evs)" by (cases r)
    from executeArbitrage_Inr [OF Inr [unfolded r]] h
    have gt: "amountIn < d" and mp: "minP \<le> d - amountIn" by auto
    from gt have lt: "unat amountIn < unat d" by (simp add: word_less_nat_alt)
    from gt have "amountIn \<le> d" by simp
    then have "unat (d - amountIn) = unat d - unat amountIn" by (rule unat_checked_sub)
    with mp have "unat minP \<le> unat d - unat amountIn" by (simp add: word_le_nat_alt)
    with lt have "unat amountIn + unat minP \<le> unat d" by arith
    with h show ?thesis by simp
  qed
qed

theorem executeArbitrage_profit_exact_witness:
  "executeArbitrage sample_externals sample_env 10 11 1 2 1000 500 sample_chain
     = Inr (sample_final, [ArbitrageExecuted 10 11 1 2 1000 990 200000])
   \<and> (\<exists>(a :: uint256) (profit :: uint256). checked_sub a 1000 = Inr profit \<and> unat profit = unat a - unat (1000 :: uint256)
        \<and> unat (500 :: uint256) \<le> unat profit \<and> a = 2000 \<and> profit = 1000)"
proof -
  from executeArbitrage_profit_exact [of sample_externals sample_env 10 11 1 2 1000 500 sample_chain sample_final
              "[ArbitrageExecuted 10 11 1 2 1000 990 200000]"] sample_run
  obtain w1 b w2 a profit where
    "swapOnDEX sample_externals sample_env 1 10 11 1000 0 (world sample_chain) = Inr (w1, b)"
    "swapOnDEX sample_externals sample_env 2 11 10 b 1000 w1 = Inr (w2, a)"
    "checked_sub a 1000 = Inr profit" "unat profit = unat a - unat (1000 :: uint256)"
    "unat (500 :: uint256) \<le> unat profit"
    by blast
  then show ?thesis using sample_run sample_legs
    by (auto simp: checked_sub_def split: if_splits)
qed

text \<open>
  C5. In a successful \<^verbatim>\<open>executeArbitrage\<close> the router of the second venue was called
  for the path tokenB, tokenA with the first leg's output as input and \<open>amountIn\<close> as
  minimum output, and what it returned exceeds \<open>amountIn\<close>. When the router rejects that
  call, or returns no more than \<open>amountIn\<close>, the whole call reverts: the second leg
  never settles below the principal.
\<close>

theorem executeArbitrage_second_leg_minimum:
  fixes tokenA tokenB :: address
  shows "(executeArbitrage ext env tokenA tokenB dexA dexB amountIn minP s = Inr (s', evs) \<longrightarrow>
      (\<exists>w1 b w1' deadline w2 amounts.
          swapOnDEX ext env dexA tokenA tokenB amountIn 0 (world s) = Inr (w1, b)
        \<and> safeApprove ext tokenB (this env) dexB b w1 = Inr w1'
        \<and> swapExactTokensForTokens ext dexB (this env) b amountIn [tokenB, tokenA]
             (this env) deadline w1' = Inr (w2, amounts)
        \<and> amounts \<noteq> [] \<and> amountIn < last amounts))
   \<and> (swapOnDEX ext env dexA tokenA tokenB amountIn 0 (world s) = Inr (v1, c)
      \<and> safeApprove ext tokenB (this env) dexB c v1 = Inr v1'
      \<and> checked_add (block_timestamp env) 300 = Inr dl
      \<and> (case swapExactTokensForTokens ext dexB (this env) c amountIn [tokenB, tokenA]
                 (this env) dl v1' of
            Inl e \<Rightarrow> True
          | Inr (v2, outs) \<Rightarrow> outs \<noteq> [] \<and> last outs \<le> amountIn) \<longrightarrow>
        isl (executeArbitrage ext env tokenA tokenB dexA dexB amountIn minP s))"
proof (intro conjI impI)
  assume ok: "executeArbitrage ext env tokenA tokenB dexA dexB amountIn minP s = Inr (s', evs)"
  from executeArbitrage_Inr [OF ok] obtain w1 b w2 a where
    l1: "swapOnDEX ext env dexA tokenA tokenB amountIn 0 (world s) = Inr (w1, b)" and
    l2: "swapOnDEX ext env dexB tokenB tokenA b amountIn w1 = Inr (w2, a)" and
    gt: "amountIn < a"
    by blast
  from l2 [unfolded swapOnDEX_Inr_iff] gt l1
  show "\<exists>w1 b w1' deadline w2 amounts.
          swapOnDEX ext env dexA tokenA tokenB amountIn 0 (world s) = Inr (w1, b)
        \<and> safeApprove ext tokenB (this env) dexB b w1 = Inr w1'
        \<and> swapExactTokensForTokens ext dexB (this env) b amountIn [tokenB, tokenA]
             (this env) deadline w1' = Inr (w2, amounts)
        \<and> amounts \<noteq> [] \<and> amountIn < last amounts"
    by blast
next
  assume h: "swapOnDEX ext env dexA tokenA tokenB amountIn 0 (world s) = Inr (v1, c)
      \<and> safeApprove ext tokenB (this env) dexB c v1 = Inr v1'
      \<and> checked_add (block_timestamp env) 300 = Inr dl
      \<and> (case swapExactTokensForTokens ext dexB (this env) c amountIn [tokenB, tokenA]
                 (this env) dl v1' of
            Inl e \<Rightarrow> True
          | Inr (v2, outs) \<Rightarrow> outs \<noteq> [] \<and> last outs \<le> amountIn)"
  show "isl (executeArbitrage ext env tokenA tokenB dexA dexB amountIn minP s)"
  proof (cases "executeArbitrage ext env tokenA tokenB dexA dexB amountIn minP s")
    case (Inl e)
    then show ?thesis by simp
  next
    case (Inr r)
    obtain s' evs where r: "r = (s', evs)" by (cases r)
    from executeArbitrage_Inr [OF Inr [unfolded r]] h obtain w2 a where
      l2: "swapOnDEX ext env dexB tokenB tokenA c amountIn v1 = Inr (w2, a)" and
      gt: "amountIn < a"
      by auto
    from l2 [unfolded swapOnDEX_Inr_iff] h gt have False
      by (auto split: sum.splits)
    then show ?thesis ..
  qed
qed


theorem executeArbitrage_second_leg_minimum_witness:
  "executeArbitrage sample_externals sample_env 10 11 1 2 1000 500 sample_chain
     = Inr (sample_final, [ArbitrageExecuted 10 11 1 2 1000 990 200000])
   \<and> (\<exists>w deadline w2 amounts.
        swapExactTokensForTokens sample_externals 2 9 2000 1000 [11, 10] 9 deadline w
          = Inr (w2, amounts) \<and> 1000 < last amounts)"
proof -
  from executeArbitrage_second_leg_minimum [of sample_externals sample_env 10 11 1 2 1000 500 sample_chain sample_final
              "[ArbitrageExecuted 10 11 1 2 1000 990 200000]"] sample_run
  obtain w1 b w1' deadline w2 amounts where
    "swapOnDEX sample_externals sample_env 1 10 11 1000 0 (world sample_chain) = Inr (w1, b)"
    "swapExactTokensForTokens sample_externals 2 (this sample_env) b 1000 [11, 10]
       (this sample_env) deadline w1' = Inr (w2, amounts)"
    "1000 < last amounts"
    by blast
  then show ?thesis using sample_run sample_legs
    by (auto simp: sample_env_def)
qed


text \<open>
  C6. In a successful \<^verbatim>\<open>executeArbitrage\<close> the fee is
  \<open>profit * feePercentage div 10000\<close> as natural numbers, it is transferred in tokenA to
  the fee recipient when it is not zero and no transfer is made otherwise; nothing else
  changes after the two swaps, and the storage is as before, so the rest of the profit
  stays in the contract. The one event emitted is \<^verbatim>\<open>ArbitrageExecuted\<close> with the two
  tokens, the two venues, \<open>amountIn\<close>, the profit less the fee, and the gas consumed.
\<close>

theorem executeArbitrage_fee_and_event:
  fixes tokenA tokenB :: address
  assumes ok: "executeArbitrage ext env tokenA tokenB dexA dexB amountIn minP s = Inr (s', evs)"
  shows "\<exists>w1 b w2 a profit fee w3.
          swapOnDEX ext env dexA tokenA tokenB amountIn 0 (world s) = Inr (w1, b)
        \<and> swapOnDEX ext env dexB tokenB tokenA b amountIn w1 = Inr (w2, a)
        \<and> checked_sub a amountIn = Inr profit
        \<and> fee = profit * storage.feePercentage (bot s) div 10000
        \<and> unat fee = unat profit * unat (storage.feePercentage (bot s)) div 10000
        \<and> (if fee = 0 then w3 = w2
            else safeTransfer ext tokenA (this env) (feeRecipient (bot s)) fee w2 = Inr w3)
        \<and> s' = s\<lparr>world := w3\<rparr>
        \<and> unat (profit - fee) = unat profit - unat fee
        \<and> unat (gas_start env - gas_end env) = unat (gas_start env) - unat (gas_end env)
        \<and> evs = [ArbitrageExecuted tokenA tokenB dexA dexB amountIn (profit - fee)
                   (gas_start env - gas_end env)]"
proof -
  let ?fp = "storage.feePercentage (bot s)"
  from executeArbitrage_Inr [OF ok] obtain w1 b w2 a w3 where
    l1: "swapOnDEX ext env dexA tokenA tokenB amountIn 0 (world s) = Inr (w1, b)" and
    l2: "swapOnDEX ext env dexB tokenB tokenA b amountIn w1 = Inr (w2, a)" and
    gt: "amountIn < a" and
    nov: "unat (a - amountIn) * unat ?fp < 2 ^ 256" and
    tr: "if 0 < (a - amountIn) * ?fp div 10000
        then safeTransfer ext tokenA (this env) (feeRecipient (bot s))
               ((a - amountIn) * ?fp div 10000) w2 = Inr w3
        else w3 = w2" and
    gas: "gas_end env \<le> gas_start env" and
    fle: "(a - amountIn) * ?fp div 10000 \<le> a - amountIn" and
    st: "s' = s\<lparr>world := w3\<rparr>" and
    ev: "evs = [ArbitrageExecuted tokenA tokenB dexA dexB amountIn
               (a - amountIn - (a - amountIn) * ?fp div 10000)
               (gas_start env - gas_end env)]"
    by blast
  let ?p = "a - amountIn"
  let ?fee = "?p * ?fp div 10000"
  have 1: "checked_sub a amountIn = Inr ?p" using gt by (simp add: checked_sub_def)
  have 2: "unat ?fee = unat ?p * unat ?fp div 10000" using nov by (rule unat_fee)
  have 3: "if ?fee = 0 then w3 = w2
           else safeTransfer ext tokenA (this env) (feeRecipient (bot s)) ?fee w2 = Inr w3"
    using tr by (simp add: word_greater_zero_iff split: if_splits)
  have 4: "unat (?p - ?fee) = unat ?p - unat ?fee" using fle by (rule unat_checked_sub)
  have 5: "unat (gas_start env - gas_end env) = unat (gas_start env) - unat (gas_end env)"
    using gas by (rule unat_checked_sub)
  from l1 l2 1 2 3 4 5 st ev show ?thesis by blast
qed

theorem executeArbitrage_fee_and_event_witness:
  "executeArbitrage sample_externals sample_env 10 11 1 2 1000 500 sample_chain
     = Inr (sample_final, [ArbitrageExecuted 10 11 1 2 1000 990 200000])
   \<and> world sample_final 10 9 = 1990 \<and> world sample_final 10 7 = 10
   \<and> (\<exists>(profit :: uint256) (fee :: uint256).
        unat fee = unat profit * unat (storage.feePercentage (bot sample_chain)) div 10000
        \<and> profit - fee = 990
        \<and> unat (profit - fee) = unat profit - unat fee)"
proof -
  from executeArbitrage_fee_and_event [OF sample_run] obtain profit fee where
    "unat fee = unat profit * unat (storage.feePercentage (bot sample_chain)) div 10000"
    "unat (profit - fee) = unat profit - unat fee"
    "[ArbitrageExecuted 10 11 1 2 1000 990 200000]
       = [ArbitrageExecuted 10 11 1 2 1000 (profit - fee)
            (gas_start sample_env - gas_end sample_env)]"
    by blast
  then have "unat fee = unat profit * unat (storage.feePercentage (bot sample_chain)) div 10000
      \<and> profit - fee = 990 \<and> unat (profit - fee) = unat profit - unat fee"
    by simp
  then have "\<exists>(profit :: uint256) (fee :: uint256).
      unat fee = unat profit * unat (storage.feePercentage (bot sample_chain)) div 10000
      \<and> profit - fee = 990 \<and> unat (profit - fee) = unat profit - unat fee"
    by blast
  with sample_run sample_final_balances show ?thesis by simp
qed

text \<open>
  C7. \<^verbatim>\<open>simulateArbitrage\<close> returns a value and no state (it is a \<^verbatim>\<open>view\<close>
  function). When the first quote is zero it returns \<open>(0, false)\<close>; otherwise, with
  \<open>tokenAOut\<close> the quote for the way back, it returns \<open>(0, false)\<close> when
  \<open>tokenAOut \<le> amountIn\<close> and else \<open>tokenAOut - amountIn\<close> (exact) together with
  whether that is at least \<open>minProfitThreshold\<close>.
\<close>

theorem simulateArbitrage_result:
  fixes tokenA tokenB :: address
  shows "(getAmountsOut ext dexA tokenA tokenB amountIn (world s) = Inr 0 \<longrightarrow>
          simulateArbitrage ext tokenA tokenB dexA dexB amountIn s = Inr (0, False))
   \<and> (getAmountsOut ext dexA tokenA tokenB amountIn (world s) = Inr tokenBOut
      \<and> tokenBOut \<noteq> 0
      \<and> getAmountsOut ext dexB tokenB tokenA tokenBOut (world s) = Inr tokenAOut \<longrightarrow>
        simulateArbitrage ext tokenA tokenB dexA dexB amountIn s
          = Inr (if tokenAOut \<le> amountIn then (0, False)
                 else (tokenAOut - amountIn,
                       minProfitThreshold (bot s) \<le> tokenAOut - amountIn))
        \<and> (amountIn < tokenAOut \<longrightarrow>
             unat (tokenAOut - amountIn) = unat tokenAOut - unat amountIn))"
  by (auto simp: simulateArbitrage_def bindE_simps checked_sub_def unat_checked_sub)

theorem simulateArbitrage_result_witness:
  "getAmountsOut sample_externals 1 10 11 1000 (world sample_chain) = Inr 2000
   \<and> getAmountsOut sample_externals 2 11 10 2000 (world sample_chain) = Inr 2000
   \<and> simulateArbitrage sample_externals 10 11 1 2 1000 sample_chain = Inr (1000, True)
   \<and> getAmountsOut sample_externals 2 10 11 1000 (world sample_chain) = Inr 1000
   \<and> getAmountsOut sample_externals 2 11 10 1000 (world sample_chain) = Inr 1000
   \<and> simulateArbitrage sample_externals 10 11 2 2 1000 sample_chain = Inr (0, False)"
proof -
  have q1: "getAmountsOut sample_externals 1 10 11 1000 (world sample_chain) = Inr 2000"
    and q2: "getAmountsOut sample_externals 2 11 10 2000 (world sample_chain) = Inr 2000"
    and q3: "getAmountsOut sample_externals 2 10 11 1000 (world sample_chain) = Inr 1000"
    and q4: "getAmountsOut sample_externals 2 11 10 1000 (world sample_chain) = Inr 1000"
    by (simp_all add: getAmountsOut_def bindE_def sample_defs)
  from simulateArbitrage_result [of sample_externals 1 10 11 1000 sample_chain 2 2000 2000] q1 q2
  have "simulateArbitrage sample_externals 10 11 1 2 1000 sample_chain = Inr (1000, True)"
    by (simp add: sample_chain_def sample_storage_def)
  moreover
  from simulateArbitrage_result [of sample_externals 2 10 11 1000 sample_chain 2 1000 1000] q3 q4
  have "simulateArbitrage sample_externals 10 11 2 2 1000 sample_chain = Inr (0, False)"
    by simp
  ultimately show ?thesis using q1 q2 q3 q4 by simp
qed

section \<open>Properties of the entities\<close>

text \<open>
  C1, as amended. Each of \<^verbatim>\<open>markAsExecuting\<close>, \<^verbatim>\<open>markAsCompleted\<close>,
  \<^verbatim>\<open>markAsFailed\<close> and \<^verbatim>\<open>markAsExpired\<close> sets the status to its target state from
  any current status; none of them rejects. The change is one of the legal edges exactly
  when the current status is Analyzing (for Executing), Executing (for Completed and
  Failed), Detected or Analyzing (for Expired).
\<close>

theorem mark_operations_set_status_unconditionally:
  "ArbitrageOpportunity.status (markAsExecuting now opp) = EXECUTING
   \<and> ArbitrageOpportunity.status (markAsCompleted now p g opp) = COMPLETED
   \<and> ArbitrageOpportunity.status (markAsFailed msg opp) = FAILED
   \<and> ArbitrageOpportunity.status (markAsExpired opp) = EXPIRED
   \<and> spec_legal_edge (ArbitrageOpportunity.status opp)
        (ArbitrageOpportunity.status (markAsExecuting now opp))
      = (ArbitrageOpportunity.status opp = ANALYZING)
   \<and> spec_legal_edge (ArbitrageOpportunity.status opp)
        (ArbitrageOpportunity.status (markAsCompleted now p g opp))
      = (ArbitrageOpportunity.status opp = EXECUTING)
   \<and> spec_legal_edge (ArbitrageOpportunity.status opp)
        (ArbitrageOpportunity.status (markAsFailed msg opp))
      = (ArbitrageOpportunity.status opp = EXECUTING)
   \<and> spec_legal_edge (ArbitrageOpportunity.status opp)
        (ArbitrageOpportunity.status (markAsExpired opp))
      = (ArbitrageOpportunity.status opp = DETECTED
         \<or> ArbitrageOpportunity.status opp = ANALYZING)"
  by (auto simp: markAsExecuting_def markAsCompleted_def markAsFailed_def markAsExpired_def
      spec_legal_edge_def)

text \<open>
  C1 as stated fails: a Detected opportunity marked as completed becomes Completed, and
  the Completed one marked as expired becomes Expired; neither edge is legal, and neither
  call is rejected.
\<close>

theorem mark_illegal_edges_counterexample:
  "ArbitrageOpportunity.status sample_opportunity = DETECTED
   \<and> ArbitrageOpportunity.status (markAsCompleted 3000 ''5'' ''7'' sample_opportunity) = COMPLETED
   \<and> \<not> spec_legal_edge DETECTED COMPLETED
   \<and> ArbitrageOpportunity.status
        (markAsExpired (markAsCompleted 3000 ''5'' ''7'' sample_opportunity)) = EXPIRED
   \<and> \<not> spec_legal_edge COMPLETED EXPIRED"
  by (simp add: sample_opportunity_def markAsCompleted_def markAsExpired_def
      spec_legal_edge_def)

text \<open>
  C8, as amended. \<^verbatim>\<open>DEX.isAvailable()\<close> is true exactly when \<open>isActive\<close> is set,
  \<open>status\<close> is ACTIVE and \<open>isHealthy\<close> is set; \<^verbatim>\<open>Token.isAvailable()\<close> is true exactly
  when \<open>isActive\<close> is set and \<open>status\<close> is ACTIVE. Neither descriptor has a blacklist
  flag. A venue in maintenance or inactive, and a token that is inactive, deprecated or
  suspicious, is unavailable whatever its flags.
\<close>

theorem isAvailable_active_status_healthy:
  "DEX_isAvailable d
     = (DEX.isActive d \<and> DEX.status d = DEXStatus.ACTIVE \<and> DEX.isHealthy d)
   \<and> Token_isAvailable t = (Token.isActive t \<and> Token.status t = TokenStatus.ACTIVE)
   \<and> \<not> DEX_isAvailable (d\<lparr>DEX.status := DEXStatus.MAINTENANCE\<rparr>)
   \<and> \<not> DEX_isAvailable (d\<lparr>DEX.status := DEXStatus.INACTIVE\<rparr>)
   \<and> \<not> Token_isAvailable (t\<lparr>Token.status := TokenStatus.INACTIVE\<rparr>)
   \<and> \<not> Token_isAvailable (t\<lparr>Token.status := DEPRECATED\<rparr>)
   \<and> \<not> Token_isAvailable (t\<lparr>Token.status := SUSPICIOUS\<rparr>)"
  by (simp add: DEX_isAvailable_def Token_isAvailable_def)

text \<open>
  C8 as stated fails: the active flag and the health flag do not decide availability. A
  venue that is active and healthy but in maintenance is unavailable, and so is an active
  token whose status is suspicious; there is no blacklist flag that could account for it.
\<close>

theorem isAvailable_flags_counterexample:
  "\<not> (DEX_isAvailable sample_dex = (DEX.isActive sample_dex \<and> DEX.isHealthy sample_dex))
   \<and> \<not> (Token_isAvailable sample_token = Token.isActive sample_token)"
  by (simp add: sample_dex_def sample_token_def DEX_isAvailable_def Token_isAvailable_def)

text \<open>
  C9. \<^verbatim>\<open>DEX.setActive(true)\<close> writes the \<open>isActive\<close> field only and leaves \<open>status\<close>
  as it was; \<^verbatim>\<open>setActive(false)\<close> clears \<open>isActive\<close> and sets \<open>status\<close> to INACTIVE.
  So a DEX that was deactivated and then activated again still has status INACTIVE, and
  \<^verbatim>\<open>isAvailable()\<close> returns false for it.
\<close>

theorem setActive_frame_and_reactivation:
  "setActive True d = d\<lparr>DEX.isActive := True\<rparr>
   \<and> DEX.status (setActive True d) = DEX.status d
   \<and> setActive False d = d\<lparr>DEX.isActive := False, DEX.status := DEXStatus.INACTIVE\<rparr>
   \<and> DEX.status (setActive True (setActive False d)) = DEXStatus.INACTIVE
   \<and> DEX.isActive (setActive True (setActive False d))
   \<and> \<not> DEX_isAvailable (setActive True (setActive False d))"
  by (simp add: setActive_def DEX_isAvailable_def)


text \<open>
  C10. \<^verbatim>\<open>getNetProfit()\<close> returns the string 0 when \<open>actualProfit\<close> or
  \<open>actualGasFee\<close> is unset (null, undefined or the empty string: what \<^verbatim>\<open>!x\<close> tests).
  Otherwise it returns the string of \<^verbatim>\<open>Math.max(0, profit - gasFee)\<close> for the two
  parsed numbers. That number is never below zero; when the gas fee exceeds the profit it
  is zero.
\<close>

theorem getNetProfit_clamped:
  "(falsy (actualProfit opp) \<or> falsy (actualGasFee opp) \<longrightarrow> getNetProfit js opp = ''0'')
   \<and> (actualProfit opp = Some p \<and> p \<noteq> [] \<and> actualGasFee opp = Some g \<and> g \<noteq> [] \<longrightarrow>
        getNetProfit js opp
          = toString js (Math_max (Finite 0) (float_sub js (parseFloat js p) (parseFloat js g)))
        \<and> \<not> number_less
              (Math_max (Finite 0) (float_sub js (parseFloat js p) (parseFloat js g)))
              (Finite 0)
        \<and> (number_less (float_sub js (parseFloat js p) (parseFloat js g)) (Finite 0) \<longrightarrow>
             getNetProfit js opp = toString js (Finite 0)))"
proof -
  have clamp: "\<not> number_less (Math_max (Finite 0) x) (Finite 0)" for x
    by (cases x) (simp_all add: Math_max_def)
  have neg: "number_less x (Finite 0) \<Longrightarrow> Math_max (Finite 0) x = Finite 0" for x
    by (cases x) (auto simp: Math_max_def)
  show ?thesis
    by (auto simp: getNetProfit_def falsy_def Let_def clamp neg)
qed

theorem getNetProfit_clamped_witness:
  "getNetProfit sample_js sample_opportunity = ''0''
   \<and> getNetProfit sample_js (markAsCompleted 3000 ''5'' ''7'' sample_opportunity) = ''0''
   \<and> getNetProfit sample_js (markAsCompleted 3000 ''7'' ''5'' sample_opportunity) = ''2''"
proof -
  let ?loss = "markAsCompleted 3000 ''5'' ''7'' sample_opportunity"
  let ?gain = "markAsCompleted 3000 ''7'' ''5'' sample_opportunity"
  have unset: "falsy (actualProfit sample_opportunity) \<or> falsy (actualGasFee sample_opportunity)"
    by (simp add: falsy_def sample_opportunity_def)
  have set_loss: "actualProfit ?loss = Some ''5'' \<and> ''5'' \<noteq> []
      \<and> actualGasFee ?loss = Some ''7'' \<and> ''7'' \<noteq> []"
    by (simp add: markAsCompleted_def)
  have set_gain: "actualProfit ?gain = Some ''7'' \<and> ''7'' \<noteq> []
      \<and> actualGasFee ?gain = Some ''5'' \<and> ''5'' \<noteq> []"
    by (simp add: markAsCompleted_def)
  have below: "number_less
      (float_sub sample_js (parseFloat sample_js ''5'') (parseFloat sample_js ''7'')) (Finite 0)"
    by (simp add: sample_js_def)
  have zero: "toString sample_js (Finite 0) = ''0''"
    by (simp add: sample_js_def)
  have two: "toString sample_js (Math_max (Finite 0)
      (float_sub sample_js (parseFloat sample_js ''7'') (parseFloat sample_js ''5''))) = ''2''"
    by (simp add: sample_js_def Math_max_def)
  from getNetProfit_clamped [where opp = sample_opportunity and js = sample_js,
      THEN conjunct1, THEN mp, OF unset]
  have 1: "getNetProfit sample_js sample_opportunity = ''0''" .
  from getNetProfit_clamped [where opp = ?loss and js = sample_js and p = "''5''" and g = "''7''",
      THEN conjunct2, THEN mp, OF set_loss]
  have "number_less
      (float_sub sample_js (parseFloat sample_js ''5'') (parseFloat sample_js ''7'')) (Finite 0)
    \<longrightarrow> getNetProfit sample_js ?loss = toString sample_js (Finite 0)"
    by blast
  with below zero have 2: "getNetProfit sample_js ?loss = ''0''" by simp
  from getNetProfit_clamped [where opp = ?gain and js = sample_js and p = "''7''" and g = "''5''",
      THEN conjunct2, THEN mp, OF set_gain]
  have "getNetProfit sample_js ?gain = toString sample_js (Math_max (Finite 0)
      (float_sub sample_js (parseFloat sample_js ''7'') (parseFloat sample_js ''5'')))"
    by blast
  with two have 3: "getNetProfit sample_js ?gain = ''2''" by simp
  from 1 2 3 show ?thesis by simp
qed

end
